theory Spec2Isabelle
  imports Complex_Main "HOL-Library.Char_ord" "HOL-Library.List_Lexorder"
begin

section \<open>Data model\<close>

text \<open>
  A Python float as the program sees it: a finite value, one of the two infinities, or
  NaN. Finite values are kept as exact rationals (every finite binary64 value is one, and
  comparisons between them are exact); the rounding of arithmetic results to binary64 is
  not part of the model, and \<open>-0.0\<close> is identified with \<open>0.0\<close>.
\<close>

datatype pyfloat = Finite rat | PosInf | NegInf | NaN

text \<open>
  A cell of a text (object) column of the data frame: \<open>Some s\<close> is the string \<open>s\<close>,
  \<open>None\<close> is the missing value pandas puts where the CSV field is empty.
\<close>

type_synonym cell = "string option"

text \<open>
  One row of the data frame, with the columns the program reads. \<open>prix_visite\<close> is a
  float64 column, where a missing price is \<open>NaN\<close>.
\<close>

record row =
  cct_code_dept :: cell
  cat_vehicule_libelle :: cell
  cat_energie_libelle :: cell
  prix_visite :: pyfloat
  date_application_visite :: cell
  cct_denomination :: string
  coordgeo :: cell

section \<open>Float comparison\<close>

text \<open>IEEE comparison \<open>a <= b\<close>: false as soon as one side is NaN.\<close>

fun fle :: "pyfloat \<Rightarrow> pyfloat \<Rightarrow> bool" where
  "fle NaN _ = False"
| "fle _ NaN = False"
| "fle NegInf _ = True"
| "fle _ PosInf = True"
| "fle (Finite a) (Finite b) = (a \<le> b)"
| "fle _ _ = False"

definition fge :: "pyfloat \<Rightarrow> pyfloat \<Rightarrow> bool" where
  "fge a b = fle b a"

text \<open>
  \<open>Series.min()\<close> and \<open>Series.max()\<close> of a float column skip NaN and return NaN when
  nothing is left.
\<close>

definition fmin :: "pyfloat \<Rightarrow> pyfloat \<Rightarrow> pyfloat" where
  "fmin a b = (if fle a b then a else b)"

definition fmax :: "pyfloat \<Rightarrow> pyfloat \<Rightarrow> pyfloat" where
  "fmax a b = (if fle b a then a else b)"

definition series_min :: "pyfloat list \<Rightarrow> pyfloat" where
  "series_min xs = (case filter (\<lambda>x. x \<noteq> NaN) xs of [] \<Rightarrow> NaN | y # ys \<Rightarrow> fold fmin ys y)"

definition series_max :: "pyfloat list \<Rightarrow> pyfloat" where
  "series_max xs = (case filter (\<lambda>x. x \<noteq> NaN) xs of [] \<Rightarrow> NaN | y # ys \<Rightarrow> fold fmax ys y)"

section \<open>The filter pipeline (project.py, lines 197 to 229)\<close>

text \<open>
  The widget state the filters read: the three multiselect selections, the
  "Enable more options" checkbox, and the price slider's pair.
\<close>

record filter_spec =
  selected_departments :: "cell list"
  more_options :: bool
  selected_vehicle_category :: "cell list"
  selected_energy_type :: "cell list"
  price_range :: "pyfloat \<times> pyfloat"

text \<open>The label \<open>"All"\<close> that every multiselect offers first.\<close>

definition ALL_LABEL :: cell where
  "ALL_LABEL = Some ''All''"

text \<open>\<open>Series.isin(values)\<close>: membership, where a missing cell matches a missing value.\<close>

definition isin :: "cell \<Rightarrow> cell list \<Rightarrow> bool" where
  "isin c values = (c \<in> set values)"

definition filter_departments :: "cell list \<Rightarrow> row list \<Rightarrow> row list" where
  "filter_departments sel fd =
     (if ALL_LABEL \<notin> set sel then filter (\<lambda>r. isin (cct_code_dept r) sel) fd else fd)"

definition filter_vehicle_category :: "cell list \<Rightarrow> row list \<Rightarrow> row list" where
  "filter_vehicle_category sel fd =
     (if ALL_LABEL \<notin> set sel then filter (\<lambda>r. isin (cat_vehicule_libelle r) sel) fd else fd)"

definition filter_energy_type :: "cell list \<Rightarrow> row list \<Rightarrow> row list" where
  "filter_energy_type sel fd =
     (if ALL_LABEL \<notin> set sel then filter (\<lambda>r. isin (cat_energie_libelle r) sel) fd else fd)"

definition filter_price :: "pyfloat \<times> pyfloat \<Rightarrow> row list \<Rightarrow> row list" where
  "filter_price pr fd =
     (case pr of (price_min, price_max) \<Rightarrow>
        filter (\<lambda>r. fge (prix_visite r) price_min \<and> fle (prix_visite r) price_max) fd)"

text \<open>
  \<open>filtered_data\<close> as the script computes it: the department filter always, the other
  three only under "Enable more options", in the script's order.
\<close>

definition filtered_data :: "row list \<Rightarrow> filter_spec \<Rightarrow> row list" where
  "filtered_data data F =
     (let fd = filter_departments (selected_departments F) data
      in if more_options F
         then filter_price (price_range F)
                (filter_energy_type (selected_energy_type F)
                  (filter_vehicle_category (selected_vehicle_category F) fd))
         else fd)"

text \<open>
  The widgets' defaults over the loaded table: \<open>default=["All"]\<close> for each multiselect,
  and the slider from the smallest to the largest price of the table.
\<close>

definition default_spec :: "row list \<Rightarrow> bool \<Rightarrow> filter_spec" where
  "default_spec data mo =
     \<lparr> selected_departments = [ALL_LABEL], more_options = mo,
       selected_vehicle_category = [ALL_LABEL], selected_energy_type = [ALL_LABEL],
       price_range = (series_min (map prix_visite data), series_max (map prix_visite data)) \<rparr>"

section \<open>Frequency counts (project.py, lines 29 to 52)\<close>

text \<open>The present (non-missing) values of a column, in order.\<close>

primrec dropna :: "'a option list \<Rightarrow> 'a list" where
  "dropna [] = []"
| "dropna (c # cs) = (case c of None \<Rightarrow> dropna cs | Some v \<Rightarrow> v # dropna cs)"

text \<open>The distinct values of a list, each at its first appearance.\<close>

definition unique :: "'a list \<Rightarrow> 'a list" where
  "unique xs = rev (remdups (rev xs))"

text \<open>
  \<open>Series.value_counts()\<close>: missing cells are dropped, every distinct value gets the
  number of rows that hold it, and the result is ordered by descending count. pandas
  does not fix the order among equal counts; here they stay in order of first appearance.
\<close>

definition value_counts :: "cell list \<Rightarrow> (string \<times> nat) list" where
  "value_counts col =
     (let present = dropna col
      in sort_key (\<lambda>lc. - int (snd lc)) (map (\<lambda>l. (l, count_list present l)) (unique present)))"

text \<open>
  The two chart functions compute the count table and hand it to the renderer;
  \<open>reset_index\<close> and the renaming of the columns keep its rows.
\<close>

definition create_dept_distribution_chart :: "row list \<Rightarrow> (string \<times> nat) list" where
  "create_dept_distribution_chart data = value_counts (map cct_code_dept data)"

text \<open>\<open>column_name\<close> selects the column: the script passes the two category columns.\<close>

definition create_category_energy_charts :: "row list \<Rightarrow> (row \<Rightarrow> cell) \<Rightarrow> (string \<times> nat) list" where
  "create_category_energy_charts data column_name = value_counts (map column_name data)"

section \<open>Mean price per date (project.py, lines 70 to 75)\<close>

text \<open>Float addition and division by a positive count, on the extended values.\<close>

fun fadd :: "pyfloat \<Rightarrow> pyfloat \<Rightarrow> pyfloat" where
  "fadd NaN _ = NaN"
| "fadd _ NaN = NaN"
| "fadd (Finite a) (Finite b) = Finite (a + b)"
| "fadd PosInf NegInf = NaN"
| "fadd NegInf PosInf = NaN"
| "fadd PosInf _ = PosInf"
| "fadd _ PosInf = PosInf"
| "fadd NegInf _ = NegInf"
| "fadd _ NegInf = NegInf"

fun fdiv_count :: "pyfloat \<Rightarrow> nat \<Rightarrow> pyfloat" where
  "fdiv_count (Finite a) n = Finite (a / of_nat n)"
| "fdiv_count x n = x"

text \<open>
  The mean as pandas' grouped \<open>mean()\<close> computes it: NaN values are skipped, the rest is
  summed and divided by its count, and a group with no value left has the mean NaN.
\<close>

definition fmean :: "pyfloat list \<Rightarrow> pyfloat" where
  "fmean xs =
     (let ys = filter (\<lambda>x. x \<noteq> NaN) xs
      in if ys = [] then NaN else fdiv_count (fold (\<lambda>y acc. fadd acc y) ys (Finite 0)) (length ys))"

text \<open>
  \<open>groupby(key)[value].mean().reset_index()\<close>: rows whose key is missing belong to no
  group; there is one output row per distinct key, in ascending order of the key.
\<close>

definition groupby_mean :: "('k::linorder option \<times> pyfloat) list \<Rightarrow> ('k \<times> pyfloat) list" where
  "groupby_mean kvs =
     map (\<lambda>k. (k, fmean (map snd (filter (\<lambda>kv. fst kv = Some k) kvs))))
       (sort (remdups (dropna (map fst kvs))))"

definition create_price_time_series_chart :: "row list \<Rightarrow> (string \<times> pyfloat) list" where
  "create_price_time_series_chart data =
     groupby_mean (map (\<lambda>r. (date_application_visite r, prix_visite r)) data)"

section \<open>Reading a float from a string\<close>

text \<open>
  Python's \<open>float(s)\<close> on a string, for ASCII text. White space is stripped at both
  ends; underscores may stand between two digits only; then an optional sign is followed
  by \<open>inf\<close>, \<open>infinity\<close> or \<open>nan\<close> in any letter case, or by a decimal number with at
  least one digit and an optional exponent. Anything else raises \<open>ValueError\<close>, which is
  \<open>None\<close> here. The value is the exact value of the decimal numeral.
\<close>

definition is_space :: "char \<Rightarrow> bool" where
  "is_space c = (c \<in> set [CHR 0x09, CHR 0x0A, CHR 0x0B, CHR 0x0C, CHR 0x0D, CHR '' ''])"

definition strip :: "string \<Rightarrow> string" where
  "strip s = rev (dropWhile is_space (rev (dropWhile is_space s)))"

definition is_digit :: "char \<Rightarrow> bool" where
  "is_digit c = (c \<in> set ''0123456789'')"

definition digit_val :: "char \<Rightarrow> nat" where
  "digit_val c = of_char c - 48"

definition digits_val :: "string \<Rightarrow> nat" where
  "digits_val ds = foldl (\<lambda>n c. 10 * n + digit_val c) 0 ds"

text \<open>
  The scan for underscores, with the previous character: an underscore needs a digit
  before it and a digit after it.
\<close>

fun underscores_ok :: "char \<Rightarrow> string \<Rightarrow> bool" where
  "underscores_ok prev [] = (prev \<noteq> CHR ''_'')"
| "underscores_ok prev (c # cs) =
     (if c = CHR ''_'' then is_digit prev \<and> underscores_ok c cs
      else if prev = CHR ''_'' then is_digit c \<and> underscores_ok c cs
      else underscores_ok c cs)"

definition to_lower :: "char \<Rightarrow> char" where
  "to_lower c = (if CHR ''A'' \<le> c \<and> c \<le> CHR ''Z'' then char_of (of_char c + (32::nat)) else c)"

text \<open>The exponent part: empty, or \<open>e\<close> or \<open>E\<close>, an optional sign and at least one digit.\<close>

definition parse_exponent :: "string \<Rightarrow> int option" where
  "parse_exponent s =
     (case s of
        [] \<Rightarrow> Some 0
      | c # t \<Rightarrow>
          if c = CHR ''e'' \<or> c = CHR ''E'' then
            (let neg = (case t of d # _ \<Rightarrow> d = CHR ''-'' | [] \<Rightarrow> False);
                 ds = (case t of d # u \<Rightarrow> if d = CHR ''-'' \<or> d = CHR ''+'' then u else t | [] \<Rightarrow> [])
             in if ds \<noteq> [] \<and> list_all is_digit ds
                then Some (if neg then - int (digits_val ds) else int (digits_val ds))
                else None)
          else None)"

text \<open>An unsigned decimal number: digits, an optional point and digits, an optional exponent.\<close>

definition parse_number :: "string \<Rightarrow> rat option" where
  "parse_number s =
     (let ip = takeWhile is_digit s;
          r1 = dropWhile is_digit s;
          fp = (case r1 of [] \<Rightarrow> [] | c # t \<Rightarrow> if c = CHR ''.'' then takeWhile is_digit t else []);
          r2 = (case r1 of [] \<Rightarrow> [] | c # t \<Rightarrow> if c = CHR ''.'' then dropWhile is_digit t else r1)
      in if ip = [] \<and> fp = [] then None
         else (case parse_exponent r2 of
                 None \<Rightarrow> None
               | Some e \<Rightarrow>
                   (let m = of_nat (digits_val (ip @ fp)) / 10 ^ length fp
                    in Some (if 0 \<le> e then m * 10 ^ nat e else m / 10 ^ nat (- e)))))"

definition py_float :: "string \<Rightarrow> pyfloat option" where
  "py_float s =
     (let t = strip s in
      if \<not> underscores_ok (CHR 0x00) t then None
      else
        (let u = filter (\<lambda>c. c \<noteq> CHR ''_'') t;
             neg = (case u of c # _ \<Rightarrow> c = CHR ''-'' | [] \<Rightarrow> False);
             body = (case u of c # v \<Rightarrow> if c = CHR ''-'' \<or> c = CHR ''+'' then v else u | [] \<Rightarrow> []);
             low = map to_lower body
         in if low = ''inf'' \<or> low = ''infinity'' then Some (if neg then NegInf else PosInf)
            else if low = ''nan'' then Some NaN
            else (case parse_number body of
                    None \<Rightarrow> None
                  | Some q \<Rightarrow> Some (Finite (if neg then - q else q)))))"

section \<open>Coordinates (project.py, lines 98 to 103)\<close>

datatype py_error = ValueError | AttributeError

text \<open>\<open>s.split(",")\<close>: the pieces between the commas; never an empty list.\<close>

fun split_comma :: "string \<Rightarrow> string list" where
  "split_comma [] = [[]]"
| "split_comma (c # cs) =
     (if c = CHR '','' then [] # split_comma cs
      else (case split_comma cs of [] \<Rightarrow> [[c]] | t # ts \<Rightarrow> (c # t) # ts))"

text \<open>
  \<open>latitude, longitude = map(float, tokens)\<close>: the tokens are converted one at a time as
  the unpacking asks for them. A token that is no float raises \<open>ValueError\<close>; so does
  running out of tokens before the second value, and so does a third token (whether it
  converts or not).
\<close>

fun unpack2 :: "(string \<Rightarrow> 'a option) \<Rightarrow> string list \<Rightarrow> py_error + ('a \<times> 'a)" where
  "unpack2 f [] = Inl ValueError"
| "unpack2 f [t1] = (case f t1 of None \<Rightarrow> Inl ValueError | Some a \<Rightarrow> Inl ValueError)"
| "unpack2 f (t1 # t2 # rest) =
     (case f t1 of
        None \<Rightarrow> Inl ValueError
      | Some a \<Rightarrow>
          (case f t2 of
             None \<Rightarrow> Inl ValueError
           | Some b \<Rightarrow> (case rest of [] \<Rightarrow> Inr (a, b) | t3 # _ \<Rightarrow> Inl ValueError)))"

text \<open>
  \<open>extract_coordinates\<close>: the \<open>try\<close> block catches \<open>ValueError\<close> only and then returns
  \<open>(None, None)\<close>. A missing cell is a float, which has no \<open>split\<close>: the
  \<open>AttributeError\<close> leaves the function.
\<close>

definition extract_coordinates :: "cell \<Rightarrow> py_error + (pyfloat option \<times> pyfloat option)" where
  "extract_coordinates cg =
     (case cg of
        None \<Rightarrow> Inl AttributeError
      | Some s \<Rightarrow>
          (case unpack2 py_float (split_comma s) of
             Inr (latitude, longitude) \<Rightarrow> Inr (Some latitude, Some longitude)
           | Inl ValueError \<Rightarrow> Inr (None, None)
           | Inl e \<Rightarrow> Inl e))"

section \<open>Map markers (project.py, lines 106 to 126)\<close>

record marker =
  location :: "pyfloat \<times> pyfloat"
  popup :: string

text \<open>
  \<open>folium.Marker(location=[latitude, longitude], popup=center_name)\<close>: the constructor
  validates the location and raises \<open>ValueError\<close> when a coordinate is NaN; otherwise
  the marker is built.
\<close>

definition folium_Marker :: "pyfloat \<Rightarrow> pyfloat \<Rightarrow> string \<Rightarrow> py_error + marker" where
  "folium_Marker la lo name =
     (if la = NaN \<or> lo = NaN then Inl ValueError
      else Inr \<lparr> location = (la, lo), popup = name \<rparr>)"

text \<open>
  The loop over the rows, with its state: the set \<open>unique_centers\<close> and the markers added
  to the map so far, in the order they were added. Nothing in the loop catches an
  exception: one raised by \<open>extract_coordinates\<close> or by \<open>folium.Marker\<close> leaves the
  function, and no map is returned.
\<close>

fun add_markers :: "row list \<Rightarrow> string set \<times> marker list \<Rightarrow> py_error + (string set \<times> marker list)" where
  "add_markers [] st = Inr st"
| "add_markers (r # rs) (unique_centers, m) =
     (let center_name = cct_denomination r in
      if center_name \<notin> unique_centers then
        (case extract_coordinates (coordgeo r) of
           Inl e \<Rightarrow> Inl e
         | Inr (latitude, longitude) \<Rightarrow>
             (case (latitude, longitude) of
                (Some la, Some lo) \<Rightarrow>
                  (case folium_Marker la lo center_name of
                     Inl e \<Rightarrow> Inl e
                   | Inr mk \<Rightarrow> add_markers rs (insert center_name unique_centers, m @ [mk]))
              | _ \<Rightarrow> add_markers rs (insert center_name unique_centers, m)))
      else add_markers rs (unique_centers, m))"

definition display_inspection_centers_map :: "row list \<Rightarrow> py_error + (string set \<times> marker list)" where
  "display_inspection_centers_map data = add_markers data ({}, [])"

section \<open>Loading the data (project.py, lines 12 to 25 and 174 to 190)\<close>

record response =
  status_code :: int
  response_text :: string

text \<open>
  What \<open>pd.read_csv\<close> does with a body: a table, a \<open>ParserError\<close> with its message, or
  another exception, which \<open>load_data\<close> does not catch. The parser is a parameter.
\<close>

datatype csv_result = Parsed "row list" | ParserError string | OtherException

datatype ui_message = St_error string | St_write string

text \<open>Decimal rendering of the status code, as the f-string does.\<close>

fun str_nat :: "nat \<Rightarrow> string" where
  "str_nat n = (if n < 10 then [''0123456789'' ! n] else str_nat (n div 10) @ [''0123456789'' ! (n mod 10)])"

declare str_nat.simps [simp del]

definition str_int :: "int \<Rightarrow> string" where
  "str_int i = (if i < 0 then CHR ''-'' # str_nat (nat (- i)) else str_nat (nat i))"

text \<open>
  \<open>load_data\<close>: the messages it shows and the value it returns (\<open>None\<close> for Python's
  \<open>None\<close>), or \<open>Inl ()\<close> when an exception leaves it.
\<close>

definition load_data :: "(string \<Rightarrow> csv_result) \<Rightarrow> response \<Rightarrow> unit + (ui_message list \<times> row list option)" where
  "load_data read_csv resp =
     (if status_code resp = 200 then
        (case read_csv (response_text resp) of
           Parsed data \<Rightarrow> Inr ([], Some data)
         | ParserError e \<Rightarrow> Inr ([St_error (''Failed to parse data. Parser error: '' @ e)], None)
         | OtherException \<Rightarrow> Inl ())
      else Inr ([St_error (''Failed to fetch data. Status code: '' @ str_int (status_code resp))], None))"

text \<open>
  The script around it: \<open>data\<close> starts as \<open>None\<close>, is loaded when the checkbox is ticked,
  and the page then shows one of two branches. The result is the messages shown and
  whether the page is in the data branch.
\<close>

datatype page = Data_loaded "row list" | Nothing_loaded

definition run_script :: "(string \<Rightarrow> csv_result) \<Rightarrow> bool \<Rightarrow> response \<Rightarrow> unit + (ui_message list \<times> page)" where
  "run_script read_csv load_data_button resp =
     (case (if load_data_button then load_data read_csv resp else Inr ([], None)) of
        Inl u \<Rightarrow> Inl u
      | Inr (shown, data) \<Rightarrow>
          (case data of
             Some d \<Rightarrow> Inr (shown @ [St_write ''Data is currently loaded!''], Data_loaded d)
           | None \<Rightarrow> Inr (shown @ [St_write ''There is nothing loaded yet...''], Nothing_loaded)))"

section \<open>The pipeline as one predicate\<close>

text \<open>The rows a selection keeps: the conjunction of the active filters.\<close>

definition keeps :: "filter_spec \<Rightarrow> row \<Rightarrow> bool" where
  "keeps F r =
     ((ALL_LABEL \<in> set (selected_departments F) \<or> isin (cct_code_dept r) (selected_departments F)) \<and>
      (more_options F \<longrightarrow>
         (ALL_LABEL \<in> set (selected_vehicle_category F) \<or>
            isin (cat_vehicule_libelle r) (selected_vehicle_category F)) \<and>
         (ALL_LABEL \<in> set (selected_energy_type F) \<or>
            isin (cat_energie_libelle r) (selected_energy_type F)) \<and>
         fge (prix_visite r) (fst (price_range F)) \<and> fle (prix_visite r) (snd (price_range F))))"

section \<open>Example tables\<close>

text \<open>Rows and tables for the concrete instances below.\<close>

definition example_row :: "string \<Rightarrow> pyfloat \<Rightarrow> string \<Rightarrow> string \<Rightarrow> string \<Rightarrow> row" where
  "example_row dept price date_text name coord =
     \<lparr> cct_code_dept = Some dept, cat_vehicule_libelle = Some ''Voiture Particuliere'',
       cat_energie_libelle = Some ''Essence'', prix_visite = price,
       date_application_visite = Some date_text, cct_denomination = name,
       coordgeo = Some coord \<rparr>"

definition priced_and_unpriced :: "row list" where
  "priced_and_unpriced =
     [example_row ''75'' (Finite 50) ''2023-01-10'' ''Centre A'' ''48.85,2.35'',
      example_row ''92'' NaN ''2023-01-11'' ''Centre B'' ''48.89,2.24'',
      example_row ''13'' (Finite 70) ''2023-01-12'' ''Centre C'' ''43.25,5.5'']"

definition two_departments :: "row list" where
  "two_departments =
     [example_row ''75'' (Finite 50) ''2023-01-10'' ''Centre A'' ''48.85,2.35'',
      example_row ''92'' (Finite 70) ''2023-01-11'' ''Centre B'' ''48.89,2.24'']"

definition three_categories :: "row list" where
  "three_categories =
     [example_row ''75'' (Finite 50) ''2023-01-10'' ''Centre A'' ''48.85,2.35'',
      example_row ''75'' (Finite 60) ''2023-01-10'' ''Centre A'' ''48.85,2.35'',
      (example_row ''92'' (Finite 70) ''2023-01-11'' ''Centre B'' ''48.89,2.24'')
        \<lparr> cct_code_dept := None \<rparr>]"

definition unpriced_day :: "row list" where
  "unpriced_day = [example_row ''92'' NaN ''2023-01-11'' ''Centre B'' ''48.89,2.24'']"

definition three_days :: "row list" where
  "three_days =
     [example_row ''75'' (Finite 10) ''2023-01-12'' ''Centre A'' ''48.85,2.35'',
      example_row ''92'' NaN ''2023-01-11'' ''Centre B'' ''48.89,2.24'',
      example_row ''75'' (Finite 20) ''2023-01-12'' ''Centre A'' ''48.85,2.35'',
      example_row ''75'' NaN ''2023-01-12'' ''Centre C'' ''48.86,2.36'',
      (example_row ''75'' (Finite 99) ''2023-01-12'' ''Centre C'' ''48.86,2.36'')
        \<lparr> date_application_visite := None \<rparr>]"

section \<open>The map loop in closed form\<close>







definition not_found :: response where
  "not_found = \<lparr> status_code = 404, response_text = ''Not Found'' \<rparr>"

definition ragged_body :: response where
  "ragged_body = \<lparr> status_code = 200, response_text = ''a,b'' @ [CHR 0x0A] @ ''1,2,3'' \<rparr>"

text \<open>A stand-in for the CSV parser in the concrete instances: it rejects every body.\<close>

definition rejecting_parser :: "string \<Rightarrow> csv_result" where
  "rejecting_parser body = ParserError ''Error tokenizing data''"

definition nan_coordinates :: "row list" where
  "nan_coordinates =
     [example_row ''75'' (Finite 50) ''2023-01-10'' ''Centre A'' ''48.5,2.25'',
      example_row ''92'' (Finite 70) ''2023-01-12'' ''Centre B'' ''nan,nan'']"

definition missing_after_seen :: "row list" where
  "missing_after_seen =
     [example_row ''75'' (Finite 50) ''2023-01-10'' ''Centre A'' ''48.5,2.25'',
      (example_row ''75'' (Finite 50) ''2023-01-11'' ''Centre A'' ''48.5,2.25'')
        \<lparr> coordgeo := None \<rparr>]"

section \<open>Idempotence of the filters\<close>

lemma filter_departments_idem:
  "filter_departments sel (filter_departments sel fd) = filter_departments sel fd"
  by (simp add: filter_departments_def)

lemma filter_vehicle_category_idem:
  "filter_vehicle_category sel (filter_vehicle_category sel fd) = filter_vehicle_category sel fd"
  by (simp add: filter_vehicle_category_def)

lemma filter_energy_type_idem:
  "filter_energy_type sel (filter_energy_type sel fd) = filter_energy_type sel fd"
  by (simp add: filter_energy_type_def)

lemma filter_price_idem:
  "filter_price pr (filter_price pr fd) = filter_price pr fd"
  by (cases pr) (auto simp add: filter_price_def intro: filter_cong)

text \<open>Every stage is a \<open>filter\<close> (or nothing), so the stages commute.\<close>

lemma filter_departments_as_filter:
  "filter_departments sel fd = filter (\<lambda>r. ALL_LABEL \<in> set sel \<or> isin (cct_code_dept r) sel) fd"
  by (simp add: filter_departments_def)

lemma filter_vehicle_category_as_filter:
  "filter_vehicle_category sel fd =
     filter (\<lambda>r. ALL_LABEL \<in> set sel \<or> isin (cat_vehicule_libelle r) sel) fd"
  by (simp add: filter_vehicle_category_def)

lemma filter_energy_type_as_filter:
  "filter_energy_type sel fd =
     filter (\<lambda>r. ALL_LABEL \<in> set sel \<or> isin (cat_energie_libelle r) sel) fd"
  by (simp add: filter_energy_type_def)

lemma filter_price_as_filter:
  "filter_price pr fd =
     filter (\<lambda>r. fge (prix_visite r) (fst pr) \<and> fle (prix_visite r) (snd pr)) fd"
  by (cases pr) (simp add: filter_price_def)

lemma filtered_data_as_filter: "filtered_data data F = filter (keeps F) data"
proof (cases "more_options F")
  case True
  then show ?thesis
    unfolding filtered_data_def Let_def filter_departments_as_filter
      filter_vehicle_category_as_filter filter_energy_type_as_filter filter_price_as_filter
    by (auto simp add: keeps_def intro: filter_cong)
next
  case False
  then show ?thesis
    unfolding filtered_data_def Let_def filter_departments_as_filter
    by (auto simp add: keeps_def intro: filter_cong)
qed

text \<open>
  C10: applying the filter pipeline twice with the same selections gives the same table as
  applying it once.
\<close>

theorem filtered_data_idempotent:
  "filtered_data (filtered_data T F) F = filtered_data T F"
  by (simp add: filtered_data_as_filter)

theorem filtered_data_idempotent_witness:
  "filtered_data (filtered_data two_departments
       (default_spec two_departments True\<lparr>selected_departments := [Some ''92'']\<rparr>))
     (default_spec two_departments True\<lparr>selected_departments := [Some ''92'']\<rparr>) =
   [example_row ''92'' (Finite 70) ''2023-01-11'' ''Centre B'' ''48.89,2.24'']"
proof -
  have "filtered_data two_departments
       (default_spec two_departments True\<lparr>selected_departments := [Some ''92'']\<rparr>) =
     [example_row ''92'' (Finite 70) ''2023-01-11'' ''Centre B'' ''48.89,2.24'']"
    by (simp add: two_departments_def example_row_def filtered_data_def default_spec_def
      filter_departments_def filter_vehicle_category_def filter_energy_type_def filter_price_def
      series_min_def series_max_def fge_def fmin_def fmax_def ALL_LABEL_def isin_def)
  then show ?thesis
    using filtered_data_idempotent [of two_departments
       "default_spec two_departments True\<lparr>selected_departments := [Some ''92'']\<rparr>"]
    by simp
qed

section \<open>The label "All"\<close>

text \<open>
  C4: when a selection contains the label "All", that dimension filters nothing, whatever
  else the selection contains: each of the three stages returns its input, and in the
  whole pipeline the selection can be replaced by the one holding "All" alone.
\<close>

theorem all_label_is_no_op:
  assumes "ALL_LABEL \<in> set sel"
  shows "filter_departments sel T = T \<and> filter_vehicle_category sel T = T \<and>
         filter_energy_type sel T = T \<and>
         filtered_data T (F\<lparr>selected_departments := sel\<rparr>) =
           filtered_data T (F\<lparr>selected_departments := [ALL_LABEL]\<rparr>) \<and>
         filtered_data T (F\<lparr>selected_vehicle_category := sel\<rparr>) =
           filtered_data T (F\<lparr>selected_vehicle_category := [ALL_LABEL]\<rparr>) \<and>
         filtered_data T (F\<lparr>selected_energy_type := sel\<rparr>) =
           filtered_data T (F\<lparr>selected_energy_type := [ALL_LABEL]\<rparr>)"
  using assms
  by (simp add: filtered_data_def filter_departments_def filter_vehicle_category_def
      filter_energy_type_def)

theorem all_label_is_no_op_witness:
  "ALL_LABEL \<in> set [Some ''75'', ALL_LABEL] \<and>
   filter_departments [Some ''75'', ALL_LABEL] two_departments = two_departments \<and>
   filter_departments [Some ''75''] two_departments =
     [example_row ''75'' (Finite 50) ''2023-01-10'' ''Centre A'' ''48.85,2.35'']"
proof -
  have h: "ALL_LABEL \<in> set [Some ''75'', ALL_LABEL]" by simp
  have "filter_departments [Some ''75''] two_departments =
     [example_row ''75'' (Finite 50) ''2023-01-10'' ''Centre A'' ''48.85,2.35'']"
    by (simp add: filter_departments_def two_departments_def example_row_def ALL_LABEL_def isin_def)
  then show ?thesis
    using h all_label_is_no_op [OF h, of two_departments] by simp
qed

section \<open>The default selections\<close>

lemma fle_refl: "x \<noteq> NaN \<Longrightarrow> fle x x"
  by (cases x) simp_all

lemma fle_trans: "fle a b \<Longrightarrow> fle b c \<Longrightarrow> fle a c"
  by (cases a; cases b; cases c) simp_all

lemma fle_total: "a \<noteq> NaN \<Longrightarrow> b \<noteq> NaN \<Longrightarrow> fle a b \<or> fle b a"
  by (cases a; cases b) auto

lemma fold_fmin_lower:
  "y \<noteq> NaN \<Longrightarrow> list_all (\<lambda>x. x \<noteq> NaN) ys \<Longrightarrow>
   fle (fold fmin ys y) y \<and> list_all (\<lambda>x. fle (fold fmin ys y) x) ys"
proof (induction ys arbitrary: y)
  case Nil
  then show ?case by (simp add: fle_refl)
next
  case (Cons z zs)
  have zn: "z \<noteq> NaN" and zsn: "list_all (\<lambda>x. x \<noteq> NaN) zs"
    using Cons.prems(2) by simp_all
  have mn: "fmin z y \<noteq> NaN"
    using zn Cons.prems(1) by (simp add: fmin_def)
  have step: "fle (fmin z y) y \<and> fle (fmin z y) z"
    using fle_total [OF zn Cons.prems(1)] fle_refl [OF zn] fle_refl [OF Cons.prems(1)]
    by (auto simp add: fmin_def)
  from Cons.IH [OF mn zsn]
  have ih: "fle (fold fmin zs (fmin z y)) (fmin z y)"
    and ih2: "list_all (\<lambda>x. fle (fold fmin zs (fmin z y)) x) zs"
    by simp_all
  show ?case
    using ih ih2 step by (auto intro: fle_trans)
qed

lemma fold_fmax_upper:
  "y \<noteq> NaN \<Longrightarrow> list_all (\<lambda>x. x \<noteq> NaN) ys \<Longrightarrow>
   fle y (fold fmax ys y) \<and> list_all (\<lambda>x. fle x (fold fmax ys y)) ys"
proof (induction ys arbitrary: y)
  case Nil
  then show ?case by (simp add: fle_refl)
next
  case (Cons z zs)
  have zn: "z \<noteq> NaN" and zsn: "list_all (\<lambda>x. x \<noteq> NaN) zs"
    using Cons.prems(2) by simp_all
  have mn: "fmax z y \<noteq> NaN"
    using zn Cons.prems(1) by (simp add: fmax_def)
  have step: "fle y (fmax z y) \<and> fle z (fmax z y)"
    using fle_total [OF zn Cons.prems(1)] fle_refl [OF zn] fle_refl [OF Cons.prems(1)]
    by (auto simp add: fmax_def)
  from Cons.IH [OF mn zsn]
  have ih: "fle (fmax z y) (fold fmax zs (fmax z y))"
    and ih2: "list_all (\<lambda>x. fle x (fold fmax zs (fmax z y))) zs"
    by simp_all
  show ?case
    using ih ih2 step by (auto intro: fle_trans)
qed

lemma series_min_lower:
  assumes "x \<in> set xs" and "x \<noteq> NaN"
  shows "fle (series_min xs) x"
proof -
  let ?ps = "filter (\<lambda>x. x \<noteq> NaN) xs"
  have mem: "x \<in> set ?ps" using assms by simp
  then obtain y ys where ps: "?ps = y # ys" by (cases ?ps) auto
  have "list_all (\<lambda>x. x \<noteq> NaN) ?ps" by (simp add: list_all_iff)
  then have yn: "y \<noteq> NaN" and ysn: "list_all (\<lambda>x. x \<noteq> NaN) ys"
    unfolding ps by simp_all
  have "fle (fold fmin ys y) y \<and> list_all (\<lambda>x. fle (fold fmin ys y) x) ys"
    by (rule fold_fmin_lower [OF yn ysn])
  then have "list_all (\<lambda>x. fle (fold fmin ys y) x) (y # ys)" by simp
  then have "fle (fold fmin ys y) x"
    using mem unfolding ps list_all_iff by blast
  then show ?thesis by (simp add: series_min_def ps)
qed

lemma series_max_upper:
  assumes "x \<in> set xs" and "x \<noteq> NaN"
  shows "fle x (series_max xs)"
proof -
  let ?ps = "filter (\<lambda>x. x \<noteq> NaN) xs"
  have mem: "x \<in> set ?ps" using assms by simp
  then obtain y ys where ps: "?ps = y # ys" by (cases ?ps) auto
  have "list_all (\<lambda>x. x \<noteq> NaN) ?ps" by (simp add: list_all_iff)
  then have yn: "y \<noteq> NaN" and ysn: "list_all (\<lambda>x. x \<noteq> NaN) ys"
    unfolding ps by simp_all
  have "fle y (fold fmax ys y) \<and> list_all (\<lambda>x. fle x (fold fmax ys y)) ys"
    by (rule fold_fmax_upper [OF yn ysn])
  then have "list_all (\<lambda>x. fle x (fold fmax ys y)) (y # ys)" by simp
  then have "fle x (fold fmax ys y)"
    using mem unfolding ps list_all_iff by blast
  then show ?thesis by (simp add: series_max_def ps)
qed

lemma keeps_default_spec:
  assumes "r \<in> set T"
  shows "keeps (default_spec T mo) r = (mo \<longrightarrow> prix_visite r \<noteq> NaN)"
proof (cases "prix_visite r = NaN")
  case True
  then show ?thesis by (simp add: keeps_def default_spec_def fge_def)
next
  case False
  have "prix_visite r \<in> set (map prix_visite T)" using assms by simp
  then have "fle (series_min (map prix_visite T)) (prix_visite r)"
    and "fle (prix_visite r) (series_max (map prix_visite T))"
    using False series_min_lower series_max_upper by blast+
  then show ?thesis using False by (simp add: keeps_def default_spec_def fge_def)
qed

text \<open>
  C1, as the code has it: with "All" in every multiselect and the slider at its default,
  the department filter alone returns the table unchanged, and with the further options
  enabled the result is the rows of the table that have a price, in their order. The rows
  with a missing price are dropped by the price comparison.
\<close>

theorem default_filters_keep_priced_rows:
  "filtered_data T (default_spec T False) = T \<and>
   filtered_data T (default_spec T True) = filter (\<lambda>r. prix_visite r \<noteq> NaN) T"
proof -
  have "filter (keeps (default_spec T False)) T = filter (\<lambda>r. True) T"
    by (rule filter_cong) (simp_all add: keeps_default_spec)
  moreover have "filter (keeps (default_spec T True)) T = filter (\<lambda>r. prix_visite r \<noteq> NaN) T"
    by (rule filter_cong) (simp_all add: keeps_default_spec)
  ultimately show ?thesis by (simp add: filtered_data_as_filter)
qed

theorem default_filters_keep_priced_rows_witness:
  "filtered_data priced_and_unpriced (default_spec priced_and_unpriced True) =
     [example_row ''75'' (Finite 50) ''2023-01-10'' ''Centre A'' ''48.85,2.35'',
      example_row ''13'' (Finite 70) ''2023-01-12'' ''Centre C'' ''43.25,5.5''] \<and>
   filtered_data priced_and_unpriced (default_spec priced_and_unpriced False) = priced_and_unpriced"
  using default_filters_keep_priced_rows [of priced_and_unpriced]
  by (simp add: priced_and_unpriced_def example_row_def)

text \<open>
  A table with two priced rows and an unpriced one: the default selections are "All"
  three times and the slider from 50 to 70, and with the further options enabled the
  result lacks the unpriced row, so it is not the table.
\<close>

theorem default_filters_not_identity:
  "price_range (default_spec priced_and_unpriced True) = (Finite 50, Finite 70) \<and>
   filtered_data priced_and_unpriced (default_spec priced_and_unpriced True) =
     [example_row ''75'' (Finite 50) ''2023-01-10'' ''Centre A'' ''48.85,2.35'',
      example_row ''13'' (Finite 70) ''2023-01-12'' ''Centre C'' ''43.25,5.5''] \<and>
   filtered_data priced_and_unpriced (default_spec priced_and_unpriced True) \<noteq> priced_and_unpriced"
  by (simp add: priced_and_unpriced_def example_row_def filtered_data_def default_spec_def
      filter_departments_def filter_vehicle_category_def filter_energy_type_def filter_price_def
      series_min_def series_max_def fge_def fmin_def fmax_def)

section \<open>Frequency counts\<close>

lemma sum_list_insort_key:
  "sum_list (map f (insort_key k x xs)) = (f x :: nat) + sum_list (map f xs)"
  by (induction xs) simp_all

lemma sum_list_sort_key:
  "sum_list (map f (sort_key k xs)) = (sum_list (map f xs) :: nat)"
  by (induction xs) (simp_all add: sum_list_insort_key)

lemma set_unique: "set (unique xs) = set xs"
  by (simp add: unique_def)

lemma distinct_unique: "distinct (unique xs)"
  by (simp add: unique_def)

lemma sum_count_unique: "sum_list (map (count_list xs) (unique xs)) = length xs"
proof -
  have "sum_list (map (count_list xs) (unique xs)) = sum (count_list xs) (set (unique xs))"
    by (rule sum_list_distinct_conv_sum_set [OF distinct_unique])
  also have "\<dots> = length xs"
    by (simp add: set_unique sum_count_set)
  finally show ?thesis .
qed

lemma length_dropna: "length (dropna col) = length (filter (\<lambda>c. c \<noteq> None) col)"
  by (induction col) (simp_all split: option.splits)

lemma set_dropna: "set (dropna col) = {v. Some v \<in> set col}"
  by (induction col) (auto split: option.splits)

lemma count_dropna: "count_list (dropna col) v = count_list col (Some v)"
  by (induction col) (simp_all split: option.splits)

lemma value_counts_total:
  "sum_list (map snd (value_counts col)) = length (filter (\<lambda>c. c \<noteq> None) col)"
proof -
  have "sum_list (map snd (value_counts col)) =
        sum_list (map snd (map (\<lambda>l. (l, count_list (dropna col) l)) (unique (dropna col))))"
    by (simp add: value_counts_def Let_def sum_list_sort_key)
  also have "\<dots> = sum_list (map (count_list (dropna col)) (unique (dropna col)))"
    by (simp add: comp_def)
  also have "\<dots> = length (dropna col)" by (rule sum_count_unique)
  finally show ?thesis by (simp add: length_dropna)
qed

lemma value_counts_entries:
  "set (value_counts col) = {(l, n). Some l \<in> set col \<and> n = count_list col (Some l)}"
  by (auto simp add: value_counts_def Let_def set_unique set_dropna count_dropna)

lemma value_counts_labels_distinct: "distinct (map fst (value_counts col))"
proof -
  have "distinct (map fst (map (\<lambda>l. (l, count_list (dropna col) l)) (unique (dropna col))))"
    by (simp add: comp_def distinct_unique)
  then show ?thesis
    unfolding value_counts_def Let_def
    by (simp only: distinct_map distinct_sort set_sort)
qed

text \<open>
  C9: over an empty table both count charts are empty; the counts of a chart add up to
  the number of rows whose category is not missing; and there is one entry per distinct
  category, holding the number of rows with that category.
\<close>

theorem count_by_category:
  "create_dept_distribution_chart [] = [] \<and>
   create_category_energy_charts [] column_name = [] \<and>
   sum_list (map snd (create_dept_distribution_chart data)) =
     length (filter (\<lambda>r. cct_code_dept r \<noteq> None) data) \<and>
   sum_list (map snd (create_category_energy_charts data column_name)) =
     length (filter (\<lambda>r. column_name r \<noteq> None) data) \<and>
   distinct (map fst (create_category_energy_charts data column_name)) \<and>
   set (create_category_energy_charts data column_name) =
     {(l, n). Some l \<in> set (map column_name data) \<and> n = length (filter (\<lambda>r. column_name r = Some l) data)}"
proof -
  have len: "length (filter (\<lambda>c. c \<noteq> None) (map f data)) = length (filter (\<lambda>r. f r \<noteq> None) data)"
    for f :: "row \<Rightarrow> cell"
    by (induction data) simp_all
  have cnt: "count_list (map column_name data) (Some l) =
      length (filter (\<lambda>r. column_name r = Some l) data)" for l
    by (induction data) simp_all
  have c1: "create_dept_distribution_chart [] = []"
    by (simp add: create_dept_distribution_chart_def value_counts_def unique_def)
  have c2: "create_category_energy_charts [] column_name = []"
    by (simp add: create_category_energy_charts_def value_counts_def unique_def)
  have c3: "sum_list (map snd (create_dept_distribution_chart data)) =
     length (filter (\<lambda>r. cct_code_dept r \<noteq> None) data)"
    unfolding create_dept_distribution_chart_def value_counts_total by (rule len)
  have c4: "sum_list (map snd (create_category_energy_charts data column_name)) =
     length (filter (\<lambda>r. column_name r \<noteq> None) data)"
    unfolding create_category_energy_charts_def value_counts_total by (rule len)
  have c5: "distinct (map fst (create_category_energy_charts data column_name))"
    unfolding create_category_energy_charts_def by (rule value_counts_labels_distinct)
  have c6: "set (create_category_energy_charts data column_name) =
     {(l, n). Some l \<in> set (map column_name data) \<and>
              n = length (filter (\<lambda>r. column_name r = Some l) data)}"
    unfolding create_category_energy_charts_def value_counts_entries cnt ..
  show ?thesis
    by (intro conjI c1 c2 c3 c4 c5 c6)
qed

theorem count_by_category_witness:
  "create_dept_distribution_chart three_categories = [(''75'', 2)] \<and>
   sum_list (map snd (create_dept_distribution_chart three_categories)) = 2 \<and>
   length (filter (\<lambda>r. cct_code_dept r \<noteq> None) three_categories) = 2"
proof -
  have "create_dept_distribution_chart three_categories = [(''75'', 2)]"
    by (simp add: create_dept_distribution_chart_def value_counts_def unique_def
        three_categories_def example_row_def)
  moreover have "length (filter (\<lambda>r. cct_code_dept r \<noteq> None) three_categories) = 2"
    by (simp add: three_categories_def example_row_def)
  moreover have "sum_list (map snd (create_dept_distribution_chart three_categories)) =
      length (filter (\<lambda>r. cct_code_dept r \<noteq> None) three_categories)"
    by (rule count_by_category [of cct_code_dept three_categories,
          THEN conjunct2, THEN conjunct2, THEN conjunct1])
  ultimately show ?thesis by simp
qed

section \<open>Mean price per date\<close>

lemma fold_fadd_Finite:
  "fold (\<lambda>y acc. fadd acc y) (map Finite qs) (Finite a) = Finite (a + sum_list qs)"
  by (induction qs arbitrary: a) (simp_all add: add.assoc)

lemma fmean_all_missing:
  "list_all (\<lambda>x. x = NaN) xs \<Longrightarrow> fmean xs = NaN"
proof -
  assume "list_all (\<lambda>x. x = NaN) xs"
  then have "filter (\<lambda>x. x \<noteq> NaN) xs = []"
    by (induction xs) simp_all
  then show ?thesis by (simp add: fmean_def)
qed

lemma fmean_finite:
  assumes "filter (\<lambda>x. x \<noteq> NaN) xs = map Finite qs" and "qs \<noteq> []"
  shows "fmean xs = Finite (sum_list qs / of_nat (length qs))"
  using assms by (simp add: fmean_def fold_fadd_Finite)

lemma groupby_mean_keys:
  "map fst (groupby_mean kvs) = sort (remdups (dropna (map fst kvs)))"
  by (simp add: groupby_mean_def comp_def)

lemma groupby_mean_keys_sorted: "sorted (map fst (groupby_mean kvs))"
  by (simp only: groupby_mean_keys sorted_sort)

lemma groupby_mean_keys_distinct: "distinct (map fst (groupby_mean kvs))"
  by (simp only: groupby_mean_keys distinct_sort distinct_remdups)

lemma groupby_mean_keys_set: "set (map fst (groupby_mean kvs)) = {k. Some k \<in> fst ` set kvs}"
  by (simp only: groupby_mean_keys set_sort set_remdups set_dropna set_map)

lemma groupby_mean_entry:
  "(k, m) \<in> set (groupby_mean kvs) \<longleftrightarrow>
     Some k \<in> fst ` set kvs \<and> m = fmean (map snd (filter (\<lambda>kv. fst kv = Some k) kvs))"
proof -
  have "set (sort (remdups (dropna (map fst kvs)))) = {k. Some k \<in> fst ` set kvs}"
    by (simp only: set_sort set_remdups set_dropna set_map)
  then show ?thesis
    unfolding groupby_mean_def set_map by auto
qed

lemma chart_group:
  "map snd (filter (\<lambda>kv. fst kv = Some d) (map (\<lambda>r. (date_application_visite r, prix_visite r)) data)) =
   map prix_visite (filter (\<lambda>r. date_application_visite r = Some d) data)"
  by (induction data) simp_all

lemma fge_priced: "fge x lo \<Longrightarrow> x \<noteq> NaN"
  by (cases x; cases lo) (simp_all add: fge_def)

lemma filtered_rows_priced:
  "more_options F \<Longrightarrow> list_all (\<lambda>r. prix_visite r \<noteq> NaN) (filtered_data T F)"
  by (auto simp add: filtered_data_as_filter list_all_iff keeps_def dest: fge_priced)

text \<open>
  C2, as the code has it: the chart has one entry per distinct non-missing date, in
  ascending order; the entry of a date holds the mean of the prices of the rows with
  exactly that date, missing prices skipped (for finite prices, their sum divided by
  their number); and a date all of whose prices are missing keeps its entry, with the
  mean NaN. The script calls the function on the table that has passed the price
  filter, in which no price is missing.
\<close>

theorem mean_price_by_date:
  "sorted (map fst (create_price_time_series_chart data)) \<and>
   distinct (map fst (create_price_time_series_chart data)) \<and>
   set (map fst (create_price_time_series_chart data)) =
     {d. \<exists>r \<in> set data. date_application_visite r = Some d} \<and>
   ((d, m) \<in> set (create_price_time_series_chart data) \<longleftrightarrow>
      (\<exists>r \<in> set data. date_application_visite r = Some d) \<and>
      m = fmean (map prix_visite (filter (\<lambda>r. date_application_visite r = Some d) data))) \<and>
   (filter (\<lambda>x. x \<noteq> NaN) xs = map Finite qs \<and> qs \<noteq> [] \<longrightarrow>
      fmean xs = Finite (sum_list qs / of_nat (length qs))) \<and>
   (list_all (\<lambda>x. x = NaN) xs \<longrightarrow> fmean xs = NaN) \<and>
   ((\<exists>r \<in> set data. date_application_visite r = Some d) \<and>
    list_all (\<lambda>r. prix_visite r = NaN) (filter (\<lambda>r. date_application_visite r = Some d) data) \<longrightarrow>
      (d, NaN) \<in> set (create_price_time_series_chart data)) \<and>
   (more_options F \<longrightarrow> list_all (\<lambda>r. prix_visite r \<noteq> NaN) (filtered_data T F))"
proof -
  let ?kvs = "map (\<lambda>r. (date_application_visite r, prix_visite r)) data"
  have img: "(Some d \<in> fst ` set ?kvs) = (\<exists>r \<in> set data. date_application_visite r = Some d)" for d
    by (force simp add: image_iff)
  have c1: "sorted (map fst (create_price_time_series_chart data))"
    unfolding create_price_time_series_chart_def by (rule groupby_mean_keys_sorted)
  have c2: "distinct (map fst (create_price_time_series_chart data))"
    unfolding create_price_time_series_chart_def by (rule groupby_mean_keys_distinct)
  have c3: "set (map fst (create_price_time_series_chart data)) =
     {d. \<exists>r \<in> set data. date_application_visite r = Some d}"
    unfolding create_price_time_series_chart_def groupby_mean_keys_set img ..
  have c4: "((d, m) \<in> set (create_price_time_series_chart data) \<longleftrightarrow>
      (\<exists>r \<in> set data. date_application_visite r = Some d) \<and>
      m = fmean (map prix_visite (filter (\<lambda>r. date_application_visite r = Some d) data)))" for m
    unfolding create_price_time_series_chart_def groupby_mean_entry img chart_group ..
  have c5: "filter (\<lambda>x. x \<noteq> NaN) xs = map Finite qs \<and> qs \<noteq> [] \<longrightarrow>
      fmean xs = Finite (sum_list qs / of_nat (length qs))"
    using fmean_finite by blast
  have c6: "list_all (\<lambda>x. x = NaN) xs \<longrightarrow> fmean xs = NaN"
    using fmean_all_missing by blast
  have c7: "(\<exists>r \<in> set data. date_application_visite r = Some d) \<and>
    list_all (\<lambda>r. prix_visite r = NaN) (filter (\<lambda>r. date_application_visite r = Some d) data) \<longrightarrow>
      (d, NaN) \<in> set (create_price_time_series_chart data)"
  proof (intro impI, elim conjE)
    assume ex: "\<exists>r \<in> set data. date_application_visite r = Some d"
      and miss: "list_all (\<lambda>r. prix_visite r = NaN) (filter (\<lambda>r. date_application_visite r = Some d) data)"
    from miss have "list_all (\<lambda>x. x = NaN)
        (map prix_visite (filter (\<lambda>r. date_application_visite r = Some d) data))"
      by (simp add: list_all_iff)
    then have "fmean (map prix_visite (filter (\<lambda>r. date_application_visite r = Some d) data)) = NaN"
      by (rule fmean_all_missing)
    then show "(d, NaN) \<in> set (create_price_time_series_chart data)"
      using ex c4 [of NaN] by simp
  qed
  have c8: "more_options F \<longrightarrow> list_all (\<lambda>r. prix_visite r \<noteq> NaN) (filtered_data T F)"
    by (intro impI) (rule filtered_rows_priced)
  show ?thesis
    by (intro conjI c1 c2 c3 c4 c5 c6 c7 c8)
qed

theorem mean_price_by_date_witness:
  "create_price_time_series_chart three_days =
     [(''2023-01-11'', NaN), (''2023-01-12'', Finite 15)] \<and>
   (''2023-01-11'', NaN) \<in> set (create_price_time_series_chart three_days) \<and>
   fmean [Finite 10, Finite 20, NaN] = Finite (sum_list [10, 20] / of_nat (length [10, 20::rat]))"
proof -
  have a: "create_price_time_series_chart three_days =
     [(''2023-01-11'', NaN), (''2023-01-12'', Finite 15)]"
    by code_simp
  have h1: "filter (\<lambda>x. x \<noteq> NaN) [Finite 10, Finite 20, NaN] = map Finite [10, 20] \<and> [10, 20::rat] \<noteq> []"
    by simp
  have h2: "(\<exists>r \<in> set three_days. date_application_visite r = Some ''2023-01-11'') \<and>
    list_all (\<lambda>r. prix_visite r = NaN)
      (filter (\<lambda>r. date_application_visite r = Some ''2023-01-11'') three_days)"
    by (simp add: three_days_def example_row_def)
  note t = mean_price_by_date [of three_days "''2023-01-11''" NaN "[Finite 10, Finite 20, NaN]" "[10, 20]"]
  have b: "(''2023-01-11'', NaN) \<in> set (create_price_time_series_chart three_days)"
    by (rule t [THEN conjunct2, THEN conjunct2, THEN conjunct2, THEN conjunct2,
          THEN conjunct2, THEN conjunct2, THEN conjunct1, THEN mp, OF h2])
  have c: "fmean [Finite 10, Finite 20, NaN] = Finite (sum_list [10, 20] / of_nat (length [10, 20::rat]))"
    by (rule t [THEN conjunct2, THEN conjunct2, THEN conjunct2, THEN conjunct2,
          THEN conjunct1, THEN mp, OF h1])
  show ?thesis by (intro conjI a b c)
qed

text \<open>
  A table whose only row has a date and no price: all prices of the date's group are
  missing, and the chart still has the entry of that date.
\<close>

theorem mean_price_by_date_keeps_unpriced_group:
  "list_all (\<lambda>r. prix_visite r = NaN) unpriced_day \<and>
   create_price_time_series_chart unpriced_day = [(''2023-01-11'', NaN)]"
  by code_simp

section \<open>Coordinates\<close>



lemma split_comma_no_comma: "t \<in> set (split_comma s) \<Longrightarrow> CHR '','' \<notin> set t"
proof (induction s arbitrary: t)
  case Nil
  then show ?case by simp
next
  case (Cons c cs)
  show ?case
  proof (cases "c = CHR '',''")
    case True
    then show ?thesis using Cons by auto
  next
    case False
    then show ?thesis using Cons by (cases "split_comma cs") auto
  qed
qed







lemmas py_float_eval = py_float_def strip_def is_space_def is_digit_def parse_number_def
  parse_exponent_def digits_val_def digit_val_def to_lower_def Let_def



section \<open>Loading the data\<close>

lemma load_data_success:
  "load_data read_csv resp = Inr (shown, Some t) \<longleftrightarrow>
     status_code resp = 200 \<and> read_csv (response_text resp) = Parsed t \<and> shown = []"
proof (cases "status_code resp = 200")
  case True
  then show ?thesis
    by (cases "read_csv (response_text resp)") (auto simp add: load_data_def)
next
  case False
  then show ?thesis by (simp add: load_data_def)
qed

lemma load_data_bad_status:
  "status_code resp \<noteq> 200 \<Longrightarrow>
   load_data read_csv resp =
     Inr ([St_error (''Failed to fetch data. Status code: '' @ str_int (status_code resp))], None)"
  by (simp add: load_data_def)

lemma load_data_parser_error:
  "status_code resp = 200 \<Longrightarrow> read_csv (response_text resp) = ParserError e \<Longrightarrow>
   load_data read_csv resp = Inr ([St_error (''Failed to parse data. Parser error: '' @ e)], None)"
  by (simp add: load_data_def)

lemma run_script_no_data:
  "load_data read_csv resp = Inr (shown, None) \<Longrightarrow>
   run_script read_csv True resp =
     Inr (shown @ [St_write ''There is nothing loaded yet...''], Nothing_loaded)"
  by (simp add: run_script_def)

lemma run_script_data:
  "load_data read_csv resp = Inr (shown, Some t) \<Longrightarrow>
   run_script read_csv True resp =
     Inr (shown @ [St_write ''Data is currently loaded!''], Data_loaded t)"
  by (simp add: run_script_def)

text \<open>
  C8: \<open>load_data\<close> returns a table exactly when the status is 200 and the parser returns
  that table, and then shows nothing. On any other status it shows the error message
  with the status code and returns \<open>None\<close>; on a parser error it shows the message with
  the parser's text and returns \<open>None\<close>. It reads the response once. In both failure cases
  the script goes on to its no-data branch.
\<close>

theorem load_data_outcomes:
  "(load_data read_csv resp = Inr (shown, Some t) \<longleftrightarrow>
      status_code resp = 200 \<and> read_csv (response_text resp) = Parsed t \<and> shown = []) \<and>
   (load_data read_csv resp = Inr (shown, Some t) \<longrightarrow>
      run_script read_csv True resp =
        Inr ([St_write ''Data is currently loaded!''], Data_loaded t)) \<and>
   (status_code resp \<noteq> 200 \<longrightarrow>
      load_data read_csv resp =
        Inr ([St_error (''Failed to fetch data. Status code: '' @ str_int (status_code resp))], None) \<and>
      run_script read_csv True resp =
        Inr ([St_error (''Failed to fetch data. Status code: '' @ str_int (status_code resp)),
              St_write ''There is nothing loaded yet...''], Nothing_loaded)) \<and>
   (status_code resp = 200 \<and> read_csv (response_text resp) = ParserError e \<longrightarrow>
      load_data read_csv resp =
        Inr ([St_error (''Failed to parse data. Parser error: '' @ e)], None) \<and>
      run_script read_csv True resp =
        Inr ([St_error (''Failed to parse data. Parser error: '' @ e),
              St_write ''There is nothing loaded yet...''], Nothing_loaded))"
proof -
  have c2: "load_data read_csv resp = Inr (shown, Some t) \<longrightarrow>
      run_script read_csv True resp =
        Inr ([St_write ''Data is currently loaded!''], Data_loaded t)"
  proof
    assume l: "load_data read_csv resp = Inr (shown, Some t)"
    then have "shown = []" by (simp only: load_data_success)
    then show "run_script read_csv True resp =
        Inr ([St_write ''Data is currently loaded!''], Data_loaded t)"
      using run_script_data [OF l] by simp
  qed
  have c3: "status_code resp \<noteq> 200 \<longrightarrow>
      load_data read_csv resp =
        Inr ([St_error (''Failed to fetch data. Status code: '' @ str_int (status_code resp))], None) \<and>
      run_script read_csv True resp =
        Inr ([St_error (''Failed to fetch data. Status code: '' @ str_int (status_code resp)),
              St_write ''There is nothing loaded yet...''], Nothing_loaded)"
  proof
    assume "status_code resp \<noteq> 200"
    then have l: "load_data read_csv resp =
        Inr ([St_error (''Failed to fetch data. Status code: '' @ str_int (status_code resp))], None)"
      by (rule load_data_bad_status)
    show "load_data read_csv resp =
        Inr ([St_error (''Failed to fetch data. Status code: '' @ str_int (status_code resp))], None) \<and>
      run_script read_csv True resp =
        Inr ([St_error (''Failed to fetch data. Status code: '' @ str_int (status_code resp)),
              St_write ''There is nothing loaded yet...''], Nothing_loaded)"
      using l run_script_no_data [OF l] by simp
  qed
  have c4: "status_code resp = 200 \<and> read_csv (response_text resp) = ParserError e \<longrightarrow>
      load_data read_csv resp =
        Inr ([St_error (''Failed to parse data. Parser error: '' @ e)], None) \<and>
      run_script read_csv True resp =
        Inr ([St_error (''Failed to parse data. Parser error: '' @ e),
              St_write ''There is nothing loaded yet...''], Nothing_loaded)"
  proof (intro impI, elim conjE)
    assume "status_code resp = 200" and "read_csv (response_text resp) = ParserError e"
    then have l: "load_data read_csv resp =
        Inr ([St_error (''Failed to parse data. Parser error: '' @ e)], None)"
      by (rule load_data_parser_error)
    show "load_data read_csv resp =
        Inr ([St_error (''Failed to parse data. Parser error: '' @ e)], None) \<and>
      run_script read_csv True resp =
        Inr ([St_error (''Failed to parse data. Parser error: '' @ e),
              St_write ''There is nothing loaded yet...''], Nothing_loaded)"
      using l run_script_no_data [OF l] by simp
  qed
  show ?thesis
    by (intro conjI load_data_success c2 c3 c4)
qed

theorem load_data_outcomes_witness:
  "status_code not_found \<noteq> 200 \<and>
   load_data rejecting_parser not_found =
     Inr ([St_error ''Failed to fetch data. Status code: 404''], None) \<and>
   run_script rejecting_parser True not_found =
     Inr ([St_error ''Failed to fetch data. Status code: 404'',
           St_write ''There is nothing loaded yet...''], Nothing_loaded) \<and>
   status_code ragged_body = 200 \<and>
   rejecting_parser (response_text ragged_body) = ParserError ''Error tokenizing data'' \<and>
   load_data rejecting_parser ragged_body =
     Inr ([St_error ''Failed to parse data. Parser error: Error tokenizing data''], None) \<and>
   run_script rejecting_parser True ragged_body =
     Inr ([St_error ''Failed to parse data. Parser error: Error tokenizing data'',
           St_write ''There is nothing loaded yet...''], Nothing_loaded)"
proof -
  have s: "str_int 404 = ''404''" by code_simp
  have h1: "status_code not_found \<noteq> 200" by (simp add: not_found_def)
  have h2: "status_code ragged_body = 200 \<and>
      rejecting_parser (response_text ragged_body) = ParserError ''Error tokenizing data''"
    by (simp add: ragged_body_def rejecting_parser_def)
  have a: "load_data rejecting_parser not_found =
        Inr ([St_error (''Failed to fetch data. Status code: '' @ str_int (status_code not_found))], None) \<and>
      run_script rejecting_parser True not_found =
        Inr ([St_error (''Failed to fetch data. Status code: '' @ str_int (status_code not_found)),
              St_write ''There is nothing loaded yet...''], Nothing_loaded)"
    by (rule load_data_outcomes [of rejecting_parser not_found,
          THEN conjunct2, THEN conjunct2, THEN conjunct1, THEN mp, OF h1])
  have b: "load_data rejecting_parser ragged_body =
        Inr ([St_error (''Failed to parse data. Parser error: '' @ ''Error tokenizing data'')], None) \<and>
      run_script rejecting_parser True ragged_body =
        Inr ([St_error (''Failed to parse data. Parser error: '' @ ''Error tokenizing data''),
              St_write ''There is nothing loaded yet...''], Nothing_loaded)"
    by (rule load_data_outcomes [of rejecting_parser ragged_body,
          THEN conjunct2, THEN conjunct2, THEN conjunct2, THEN mp, OF h2])
  have sc: "status_code not_found = 404" by (simp add: not_found_def)
  show ?thesis
    using a b h1 h2 by (simp add: sc s)
qed

section \<open>Map markers\<close>























lemmas map_eval = display_inspection_centers_map_def extract_coordinates_def folium_Marker_def
  py_float_eval example_row_def

text \<open>
  The two exceptions of the loop on concrete tables: coordinates that read as NaN at a
  first-seen name, and a missing coordinate cell at a first-seen name; a missing cell at a
  name already seen is never read.
\<close>

lemma display_inspection_centers_map_raises:
  "display_inspection_centers_map nan_coordinates = Inl ValueError \<and>
   display_inspection_centers_map (rev missing_after_seen) = Inl AttributeError \<and>
   display_inspection_centers_map missing_after_seen =
     Inr ({''Centre A''}, [\<lparr> location = (Finite (97 / 2), Finite (9 / 4)), popup = ''Centre A'' \<rparr>])"
  by (simp add: nan_coordinates_def missing_after_seen_def map_eval)






end
